theory Spec2Isabelle
  imports Complex_Main
begin

section \<open>The benchmark tables of create_charts.py\<close>

text \<open>
  The script holds two dict literals whose values are lists of Python integers. A dict
  literal keeps its keys in the order written, and that order becomes the column order of
  the DataFrame, so a table is an association list from column name to column.
\<close>

type_synonym table = "(string \<times> int list) list"

definition random_data :: table where
  "random_data =
     [(''N'', [10, 100, 1000, 10000]),
      (''Time/Op (ns)'', [4372, 115627, 1851251, 29025479])]"

definition grid_data :: table where
  "grid_data =
     [(''Segments'', [20, 100, 200, 400]),
      (''Intersections'', [100, 2500, 10000, 40000]),
      (''Time/Op (ns)'', [55818, 1604035, 7506986, 31361110])]"

text \<open>Reading a column that the table has; a missing column reads as the empty list.\<close>

definition column :: "table \<Rightarrow> string \<Rightarrow> int list" where
  "column t k = (case map_of t k of None \<Rightarrow> [] | Some c \<Rightarrow> c)"

fun strictly_increasing :: "int list \<Rightarrow> bool" where
  "strictly_increasing [] = True"
| "strictly_increasing [x] = True"
| "strictly_increasing (x # y # ys) = (x < y \<and> strictly_increasing (y # ys))"

fun all_positive :: "int list \<Rightarrow> bool" where
  "all_positive [] = True"
| "all_positive (x # xs) = (0 < x \<and> all_positive xs)"

fun all_columns_positive :: "table \<Rightarrow> bool" where
  "all_columns_positive [] = True"
| "all_columns_positive ((k, c) # t) = (all_positive c \<and> all_columns_positive t)"

section \<open>The interpreter state the script acts on\<close>

text \<open>
  The script is a straight line of calls into pandas, seaborn and matplotlib.pyplot.
  Those calls act on state that pyplot keeps for the process (the theme parameters and
  the registry of open figures, the last one created being the current figure), on the
  files of the working directory and on standard output. The state is passed explicitly.

  A figure is kept as what was asked of it: the series handed to it, the scale of each
  axis, its texts and its grid. An image file is the figure it was saved from together
  with the resolution and the bounding box requested.

  The values of a series are the Python integers of the table. The libraries hold them as
  64-bit floats, which is the same number for every integer of magnitude below 2^53, as
  all values of the script's tables are.
\<close>

record theme =
  style :: string
  palette :: string
  font_scale :: rat

record line2d =
  xdata :: "int list"
  ydata :: "int list"
  marker :: string
  markersize :: int

datatype scale = Linear | Log

record grid_lines =
  visible :: bool
  which :: string
  ls :: string

record figure =
  fig_theme :: "theme option"
  figsize :: "(int \<times> int) option"
  lines :: "line2d list"
  xscale :: scale
  yscale :: scale
  title :: string
  xlabel :: string
  ylabel :: string
  grid :: "grid_lines option"

record image =
  img_figure :: figure
  dpi :: int
  bbox_inches :: string

record world =
  rc :: "theme option"
  figs :: "figure list"
  files :: "string \<rightharpoonup> image"
  stdout :: "string list"

datatype error = ValueError string | OSError string

text \<open>
  A call either returns a value in a new state, or raises in the state it had reached.
  Nothing in the script catches an exception, so a raise ends the run.
\<close>

datatype 'a outcome = Ok 'a world | Raised error world

fun final :: "'a outcome \<Rightarrow> world" where
  "final (Ok a w) = w"
| "final (Raised e w) = w"

fun and_then :: "'a outcome \<Rightarrow> ('a \<Rightarrow> world \<Rightarrow> 'b outcome) \<Rightarrow> 'b outcome" where
  "and_then (Ok a w) f = f a w"
| "and_then (Raised e w) f = Raised e w"

section \<open>The library calls the script makes\<close>

text \<open>\<^verbatim>\<open>sns.set_theme(style=..., palette=..., font_scale=...)\<close> stores the parameters that
  figures created afterwards are drawn with.\<close>

definition set_theme :: "string \<Rightarrow> string \<Rightarrow> rat \<Rightarrow> world \<Rightarrow> world" where
  "set_theme s p f w = w\<lparr>rc := Some \<lparr>style = s, palette = p, font_scale = f\<rparr>\<rparr>"

text \<open>\<^verbatim>\<open>pd.DataFrame(dict)\<close> raises ValueError unless all columns have the same length.\<close>

definition DataFrame :: "table \<Rightarrow> world \<Rightarrow> table outcome" where
  "DataFrame t w =
     (case t of
        [] \<Rightarrow> Ok t w
      | (k, c) # rest \<Rightarrow>
          if list_all (\<lambda>kc. length (snd kc) = length c) rest then Ok t w
          else Raised (ValueError ''All arrays must be of the same length'') w)"

definition new_figure :: "theme option \<Rightarrow> (int \<times> int) option \<Rightarrow> figure" where
  "new_figure th sz =
     \<lparr>fig_theme = th, figsize = sz, lines = [], xscale = Linear, yscale = Linear,
      title = [], xlabel = [], ylabel = [], grid = None\<rparr>"

text \<open>\<^verbatim>\<open>plt.figure(figsize=...)\<close> opens a new, empty figure and makes it the current one.
  Figures opened earlier stay in the registry until they are closed.\<close>

definition plt_figure :: "int \<times> int \<Rightarrow> world \<Rightarrow> world" where
  "plt_figure sz w = w\<lparr>figs := figs w @ [new_figure (rc w) (Some sz)]\<rparr>"

text \<open>The current figure; pyplot opens one of default size when there is none.\<close>

definition gcf :: "world \<Rightarrow> world" where
  "gcf w = (if figs w = [] then w\<lparr>figs := [new_figure (rc w) None]\<rparr> else w)"

definition on_current :: "(figure \<Rightarrow> figure) \<Rightarrow> world \<Rightarrow> world" where
  "on_current f w =
     (let v = gcf w; i = length (figs v) - 1
      in v\<lparr>figs := (figs v)[i := f (figs v ! i)]\<rparr>)"

text \<open>
  \<^verbatim>\<open>sns.lineplot(x=..., y=..., data=..., marker=..., markersize=...)\<close> looks both
  columns up in the data (ValueError for a name the data does not have), adds the series
  to the current figure, labels the axes with the column names where they have no label
  yet, and returns the axes it drew on: here the position of that figure in the registry.

  The series is kept as the two columns as they are given. Called as the script calls
  it, lineplot sorts the rows by x and draws the mean of the y values of rows with equal
  x; the two columns as given are what it draws when the x column is strictly increasing,
  as it is in both tables of the script (see \<open>drawn_as_given\<close> below).
\<close>

definition sns_lineplot ::
  "string \<Rightarrow> string \<Rightarrow> table \<Rightarrow> string \<Rightarrow> int \<Rightarrow> world \<Rightarrow> nat outcome" where
  "sns_lineplot x y data m ms w =
     (case map_of data x of
        None \<Rightarrow> Raised (ValueError x) w
      | Some xs \<Rightarrow>
          (case map_of data y of
             None \<Rightarrow> Raised (ValueError y) w
           | Some ys \<Rightarrow>
               (let v = on_current (\<lambda>f. f
                          \<lparr>lines := lines f @
                             [\<lparr>xdata = xs, ydata = ys, marker = m, markersize = ms\<rparr>],
                           xlabel := (if xlabel f = [] then x else xlabel f),
                           ylabel := (if ylabel f = [] then y else ylabel f)\<rparr>) w
                in Ok (length (figs v) - 1) v)))"

text \<open>\<^verbatim>\<open>ax.set(xscale=..., yscale=...)\<close> on the axes a plot call returned. The scale is
  set whatever the data are: the call does not look at them.\<close>

definition axes_set :: "nat \<Rightarrow> scale \<Rightarrow> scale \<Rightarrow> world \<Rightarrow> world" where
  "axes_set ax sx sy w =
     w\<lparr>figs := (figs w)[ax := (figs w ! ax)\<lparr>xscale := sx, yscale := sy\<rparr>]\<rparr>"

definition plt_title :: "string \<Rightarrow> world \<Rightarrow> world" where
  "plt_title s w = on_current (\<lambda>f. f\<lparr>title := s\<rparr>) w"

definition plt_xlabel :: "string \<Rightarrow> world \<Rightarrow> world" where
  "plt_xlabel s w = on_current (\<lambda>f. f\<lparr>xlabel := s\<rparr>) w"

definition plt_ylabel :: "string \<Rightarrow> world \<Rightarrow> world" where
  "plt_ylabel s w = on_current (\<lambda>f. f\<lparr>ylabel := s\<rparr>) w"

definition plt_grid :: "bool \<Rightarrow> string \<Rightarrow> string \<Rightarrow> world \<Rightarrow> world" where
  "plt_grid b wh l w =
     on_current (\<lambda>f. f\<lparr>grid := Some \<lparr>visible = b, which = wh, ls = l\<rparr>\<rparr>) w"

text \<open>
  \<^verbatim>\<open>plt.savefig(fname, dpi=..., bbox_inches=...)\<close> writes the current figure to the
  path, replacing a file that is there, and raises OSError when the path cannot be
  written. The path is relative, so it names a file of the working directory; which
  paths can be written is a parameter of the run.

  Only the failure to write is modelled. Inside the library, saving also fails when a
  log axis has no data to scale to, as with a series of no rows; the series of the script
  have rows, and the results below that range over tables ask for it.
\<close>

definition plt_savefig ::
  "(string \<Rightarrow> bool) \<Rightarrow> string \<Rightarrow> int \<Rightarrow> string \<Rightarrow> world \<Rightarrow> unit outcome" where
  "plt_savefig writable fname d bb w =
     (let v = gcf w in
      if writable fname
      then Ok () (v\<lparr>files := (files v)(fname \<mapsto>
                      \<lparr>img_figure = last (figs v), dpi = d, bbox_inches = bb\<rparr>)\<rparr>)
      else Raised (OSError fname) v)"

definition print :: "string \<Rightarrow> world \<Rightarrow> world" where
  "print s w = w\<lparr>stdout := stdout w @ [s]\<rparr>"

section \<open>The script\<close>

text \<open>Lines 27 to 43: the chart of the random data, reading the variable df_random.\<close>

definition chart_random :: "(string \<Rightarrow> bool) \<Rightarrow> table \<Rightarrow> world \<Rightarrow> unit outcome" where
  "chart_random writable df_random w0 =
     (let w1 = plt_figure (10, 6) w0 in
      and_then (sns_lineplot ''N'' ''Time/Op (ns)'' df_random ''o'' 8 w1)
        (\<lambda>plot_random w2.
           let w3 = axes_set plot_random Log Log w2;
               w4 = plt_title ''Performance Scaling with Number of Segments (Random Data)'' w3;
               w5 = plt_xlabel ''Number of Segments (n)'' w4;
               w6 = plt_ylabel ''Time per Operation (ns, log scale)'' w5;
               w7 = plt_grid True ''both'' ''--'' w6
           in and_then (plt_savefig writable ''benchmark_random.png'' 300 ''tight'' w7)
                (\<lambda>u w8. Ok () (print ''Saved benchmark_random.png'' w8))))"

text \<open>Lines 48 to 64: the chart of the grid data, reading the variable df_grid.\<close>

definition chart_grid :: "(string \<Rightarrow> bool) \<Rightarrow> table \<Rightarrow> world \<Rightarrow> unit outcome" where
  "chart_grid writable df_grid w0 =
     (let w1 = plt_figure (10, 6) w0 in
      and_then (sns_lineplot ''Intersections'' ''Time/Op (ns)'' df_grid ''o'' 8 w1)
        (\<lambda>plot_grid w2.
           let w3 = axes_set plot_grid Log Log w2;
               w4 = plt_title ''Performance Scaling with Number of Intersections (Grid Data)'' w3;
               w5 = plt_xlabel ''Number of Intersections (k)'' w4;
               w6 = plt_ylabel ''Time per Operation (ns, log scale)'' w5;
               w7 = plt_grid True ''both'' ''--'' w6
           in and_then (plt_savefig writable ''benchmark_grid.png'' 300 ''tight'' w7)
                (\<lambda>u w8. Ok () (print ''Saved benchmark_grid.png'' w8))))"

text \<open>The whole module, top to bottom.\<close>

definition program :: "(string \<Rightarrow> bool) \<Rightarrow> world \<Rightarrow> unit outcome" where
  "program writable w0 =
     (let w1 = set_theme ''whitegrid'' ''muted'' (12 / 10) w0 in
      and_then (DataFrame random_data w1) (\<lambda>df_random w2.
      and_then (DataFrame grid_data w2) (\<lambda>df_grid w3.
      and_then (chart_random writable df_random w3) (\<lambda>u w4.
      chart_grid writable df_grid w4))))"

text \<open>A run is a new process: no theme, no open figure, nothing printed yet, and the
  files the working directory holds.\<close>

definition start :: "(string \<rightharpoonup> image) \<Rightarrow> world" where
  "start fs = \<lparr>rc = None, figs = [], files = fs, stdout = []\<rparr>"

definition main :: "(string \<Rightarrow> bool) \<Rightarrow> (string \<rightharpoonup> image) \<Rightarrow> unit outcome" where
  "main writable fs = program writable (start fs)"

section \<open>Vocabulary for the results\<close>

text \<open>Whether a call raised.\<close>

fun raised :: "'a outcome \<Rightarrow> bool" where
  "raised (Ok a w) = False"
| "raised (Raised e w) = True"

text \<open>
  The figure a chart block leaves behind, as a function of what varies between the two
  blocks: the theme in force, the two series, the title and the label of the x-axis.
\<close>

definition finished_chart ::
  "theme option \<Rightarrow> int list \<Rightarrow> int list \<Rightarrow> string \<Rightarrow> string \<Rightarrow> figure" where
  "finished_chart th xs ys t xl =
     \<lparr>fig_theme = th, figsize = Some (10, 6),
      lines = [\<lparr>xdata = xs, ydata = ys, marker = ''o'', markersize = 8\<rparr>],
      xscale = Log, yscale = Log, title = t, xlabel = xl,
      ylabel = ''Time per Operation (ns, log scale)'',
      grid = Some \<lparr>visible = True, which = ''both'', ls = ''--''\<rparr>\<rparr>"

definition script_theme :: theme where
  "script_theme = \<lparr>style = ''whitegrid'', palette = ''muted'', font_scale = 12 / 10\<rparr>"

text \<open>
  Surroundings to run the script in: every path writable; only benchmark_random.png
  not writable; an empty working directory; a working directory that already holds an
  older benchmark_grid.png.
\<close>

definition all_writable :: "string \<Rightarrow> bool" where
  "all_writable p = True"

definition random_unwritable :: "string \<Rightarrow> bool" where
  "random_unwritable p = (p \<noteq> ''benchmark_random.png'')"

definition no_files :: "string \<rightharpoonup> image" where
  "no_files = Map.empty"

definition stale_files :: "string \<rightharpoonup> image" where
  "stale_files =
     [''benchmark_grid.png'' \<mapsto>
        \<lparr>img_figure = new_figure None None, dpi = 100, bbox_inches = ''standard''\<rparr>]"

text \<open>A table with a zero among the x values and a negative number among the y values.\<close>

definition nonpositive_data :: table where
  "nonpositive_data =
     [(''N'', [0, 100, 1000, 10000]),
      (''Time/Op (ns)'', [4372, - 5, 1851251, 29025479])]"

text \<open>
  The series on which the model of the plotting calls is what the libraries do: both
  columns of the same length, the x column strictly increasing (so that sorting by x and
  averaging over equal x change nothing), every value of magnitude below 2^53 (so that it
  is held exactly as a float), and at least one sample with both values positive (so that
  each log axis has data to scale to). The series of both tables of the script are such.
\<close>

fun within_float :: "int list \<Rightarrow> bool" where
  "within_float [] = True"
| "within_float (v # vs) = (\<bar>v\<bar> < 2 ^ 53 \<and> within_float vs)"

fun some_positive_sample :: "int list \<Rightarrow> int list \<Rightarrow> bool" where
  "some_positive_sample (x # xs) (y # ys) = ((0 < x \<and> 0 < y) \<or> some_positive_sample xs ys)"
| "some_positive_sample xs ys = False"

definition drawn_as_given :: "int list \<Rightarrow> int list \<Rightarrow> bool" where
  "drawn_as_given xs ys =
     (length xs = length ys \<and> strictly_increasing xs \<and> within_float xs \<and>
      within_float ys \<and> some_positive_sample xs ys)"

section \<open>What each call does to a state whose current figure is known\<close>

lemma on_current_snoc:
  "on_current g (w\<lparr>figs := fs @ [f]\<rparr>) = w\<lparr>figs := fs @ [g f]\<rparr>"
  by (simp add: on_current_def gcf_def Let_def)

lemma axes_set_snoc:
  "axes_set (length fs) sx sy (w\<lparr>figs := fs @ [f]\<rparr>) =
     w\<lparr>figs := fs @ [f\<lparr>xscale := sx, yscale := sy\<rparr>]\<rparr>"
  by (simp add: axes_set_def)

lemma sns_lineplot_snoc:
  "map_of df x = Some xs \<Longrightarrow> map_of df y = Some ys \<Longrightarrow>
   sns_lineplot x y df m ms (w\<lparr>figs := fs @ [f]\<rparr>) =
     Ok (length fs) (w\<lparr>figs := fs @ [f
         \<lparr>lines := lines f @ [\<lparr>xdata = xs, ydata = ys, marker = m, markersize = ms\<rparr>],
          xlabel := (if xlabel f = [] then x else xlabel f),
          ylabel := (if ylabel f = [] then y else ylabel f)\<rparr>]\<rparr>)"
  by (simp add: sns_lineplot_def on_current_snoc)

lemma sns_lineplot_missing:
  "map_of df x = None \<or> map_of df y = None \<Longrightarrow>
   sns_lineplot x y df m ms w =
     Raised (ValueError (if map_of df x = None then x else y)) w"
  by (auto simp: sns_lineplot_def split: option.splits)

lemma plt_savefig_snoc:
  "plt_savefig writable p d bb (w\<lparr>figs := fs @ [f]\<rparr>) =
     (if writable p
      then Ok () (w\<lparr>figs := fs @ [f],
                    files := (files w)(p \<mapsto> \<lparr>img_figure = f, dpi = d, bbox_inches = bb\<rparr>)\<rparr>)
      else Raised (OSError p) (w\<lparr>figs := fs @ [f]\<rparr>))"
  by (simp add: plt_savefig_def gcf_def Let_def)

lemmas chart_simps = plt_figure_def on_current_snoc axes_set_snoc sns_lineplot_snoc
  plt_savefig_snoc plt_title_def plt_xlabel_def plt_ylabel_def plt_grid_def print_def
  new_figure_def finished_chart_def

section \<open>The two chart blocks and the whole run, computed\<close>

lemma chart_random_run:
  assumes "map_of df ''N'' = Some xs" and "map_of df ''Time/Op (ns)'' = Some ys"
  shows "chart_random writable df w =
    (if writable ''benchmark_random.png''
     then Ok () (w\<lparr>figs := figs w @
                     [finished_chart (rc w) xs ys
                        ''Performance Scaling with Number of Segments (Random Data)''
                        ''Number of Segments (n)''],
                   files := (files w)(''benchmark_random.png'' \<mapsto>
                     \<lparr>img_figure = finished_chart (rc w) xs ys
                        ''Performance Scaling with Number of Segments (Random Data)''
                        ''Number of Segments (n)'',
                      dpi = 300, bbox_inches = ''tight''\<rparr>),
                   stdout := stdout w @ [''Saved benchmark_random.png'']\<rparr>)
     else Raised (OSError ''benchmark_random.png'')
            (w\<lparr>figs := figs w @
                     [finished_chart (rc w) xs ys
                        ''Performance Scaling with Number of Segments (Random Data)''
                        ''Number of Segments (n)'']\<rparr>))"
  using assms by (simp add: chart_random_def chart_simps Let_def)

lemma chart_grid_run:
  assumes "map_of df ''Intersections'' = Some xs" and "map_of df ''Time/Op (ns)'' = Some ys"
  shows "chart_grid writable df w =
    (if writable ''benchmark_grid.png''
     then Ok () (w\<lparr>figs := figs w @
                     [finished_chart (rc w) xs ys
                        ''Performance Scaling with Number of Intersections (Grid Data)''
                        ''Number of Intersections (k)''],
                   files := (files w)(''benchmark_grid.png'' \<mapsto>
                     \<lparr>img_figure = finished_chart (rc w) xs ys
                        ''Performance Scaling with Number of Intersections (Grid Data)''
                        ''Number of Intersections (k)'',
                      dpi = 300, bbox_inches = ''tight''\<rparr>),
                   stdout := stdout w @ [''Saved benchmark_grid.png'']\<rparr>)
     else Raised (OSError ''benchmark_grid.png'')
            (w\<lparr>figs := figs w @
                     [finished_chart (rc w) xs ys
                        ''Performance Scaling with Number of Intersections (Grid Data)''
                        ''Number of Intersections (k)'']\<rparr>))"
  using assms by (simp add: chart_grid_def chart_simps Let_def)

lemma chart_random_missing:
  assumes "map_of df ''N'' = None \<or> map_of df ''Time/Op (ns)'' = None"
  shows "chart_random writable df w =
    Raised (ValueError (if map_of df ''N'' = None then ''N'' else ''Time/Op (ns)''))
      (w\<lparr>figs := figs w @ [new_figure (rc w) (Some (10, 6))]\<rparr>)"
  using sns_lineplot_missing [OF assms]
  by (simp add: chart_random_def plt_figure_def Let_def)

lemma chart_grid_missing:
  assumes "map_of df ''Intersections'' = None \<or> map_of df ''Time/Op (ns)'' = None"
  shows "chart_grid writable df w =
    Raised (ValueError (if map_of df ''Intersections'' = None then ''Intersections''
                        else ''Time/Op (ns)''))
      (w\<lparr>figs := figs w @ [new_figure (rc w) (Some (10, 6))]\<rparr>)"
  using sns_lineplot_missing [OF assms]
  by (simp add: chart_grid_def plt_figure_def Let_def)

lemma DataFrame_random: "DataFrame random_data w = Ok random_data w"
  by (simp add: DataFrame_def random_data_def)

lemma DataFrame_grid: "DataFrame grid_data w = Ok grid_data w"
  by (simp add: DataFrame_def grid_data_def)

lemma random_columns:
  "map_of random_data ''N'' = Some [10, 100, 1000, 10000]"
  "map_of random_data ''Time/Op (ns)'' = Some [4372, 115627, 1851251, 29025479]"
  by (simp_all add: random_data_def)

lemma grid_columns:
  "map_of grid_data ''Intersections'' = Some [100, 2500, 10000, 40000]"
  "map_of grid_data ''Time/Op (ns)'' = Some [55818, 1604035, 7506986, 31361110]"
  "map_of grid_data ''Segments'' = Some [20, 100, 200, 400]"
  by (simp_all add: grid_data_def)

lemma program_steps:
  "main writable fs =
     and_then (chart_random writable random_data
                 \<lparr>rc = Some script_theme, figs = [], files = fs, stdout = []\<rparr>)
       (\<lambda>u w. chart_grid writable grid_data w)"
  by (simp add: main_def program_def Let_def set_theme_def start_def script_theme_def
      DataFrame_random DataFrame_grid)

lemma main_run:
  "main writable fs =
    (if \<not> writable ''benchmark_random.png''
     then Raised (OSError ''benchmark_random.png'')
            \<lparr>rc = Some script_theme,
             figs = [finished_chart (Some script_theme)
                       [10, 100, 1000, 10000] [4372, 115627, 1851251, 29025479]
                       ''Performance Scaling with Number of Segments (Random Data)''
                       ''Number of Segments (n)''],
             files = fs, stdout = []\<rparr>
     else if \<not> writable ''benchmark_grid.png''
     then Raised (OSError ''benchmark_grid.png'')
            \<lparr>rc = Some script_theme,
             figs = [finished_chart (Some script_theme)
                       [10, 100, 1000, 10000] [4372, 115627, 1851251, 29025479]
                       ''Performance Scaling with Number of Segments (Random Data)''
                       ''Number of Segments (n)'',
                     finished_chart (Some script_theme)
                       [100, 2500, 10000, 40000] [55818, 1604035, 7506986, 31361110]
                       ''Performance Scaling with Number of Intersections (Grid Data)''
                       ''Number of Intersections (k)''],
             files = fs(''benchmark_random.png'' \<mapsto>
                       \<lparr>img_figure = finished_chart (Some script_theme)
                          [10, 100, 1000, 10000] [4372, 115627, 1851251, 29025479]
                          ''Performance Scaling with Number of Segments (Random Data)''
                          ''Number of Segments (n)'',
                        dpi = 300, bbox_inches = ''tight''\<rparr>),
             stdout = [''Saved benchmark_random.png'']\<rparr>
     else Ok ()
            \<lparr>rc = Some script_theme,
             figs = [finished_chart (Some script_theme)
                       [10, 100, 1000, 10000] [4372, 115627, 1851251, 29025479]
                       ''Performance Scaling with Number of Segments (Random Data)''
                       ''Number of Segments (n)'',
                     finished_chart (Some script_theme)
                       [100, 2500, 10000, 40000] [55818, 1604035, 7506986, 31361110]
                       ''Performance Scaling with Number of Intersections (Grid Data)''
                       ''Number of Intersections (k)''],
             files = fs(''benchmark_random.png'' \<mapsto>
                       \<lparr>img_figure = finished_chart (Some script_theme)
                          [10, 100, 1000, 10000] [4372, 115627, 1851251, 29025479]
                          ''Performance Scaling with Number of Segments (Random Data)''
                          ''Number of Segments (n)'',
                        dpi = 300, bbox_inches = ''tight''\<rparr>,
                      ''benchmark_grid.png'' \<mapsto>
                       \<lparr>img_figure = finished_chart (Some script_theme)
                          [100, 2500, 10000, 40000] [55818, 1604035, 7506986, 31361110]
                          ''Performance Scaling with Number of Intersections (Grid Data)''
                          ''Number of Intersections (k)'',
                        dpi = 300, bbox_inches = ''tight''\<rparr>),
             stdout = [''Saved benchmark_random.png'', ''Saved benchmark_grid.png'']\<rparr>)"
  by (simp add: program_steps chart_random_run [OF random_columns(1,2)]
      chart_grid_run [OF grid_columns(1,2)])

section \<open>The data\<close>

text \<open>
  C1. In both tables the independent variable (N of the random data, Intersections of
  the grid data) is strictly increasing, and every value of every column of both tables
  is strictly positive.
\<close>

theorem datasets_increasing_and_positive:
  "strictly_increasing (column random_data ''N'') \<and>
   strictly_increasing (column grid_data ''Intersections'') \<and>
   all_columns_positive random_data \<and>
   all_columns_positive grid_data"
  by (simp add: random_data_def grid_data_def column_def)

text \<open>
  C10. Every row of the grid table satisfies Intersections = Segments^2 / 4, and the
  division is exact: 20 gives 100, 100 gives 2500, 200 gives 10000, 400 gives 40000.
\<close>

theorem grid_intersections_quarter_square:
  "column grid_data ''Intersections'' = map (\<lambda>s. s\<^sup>2 div 4) (column grid_data ''Segments'') \<and>
   map (\<lambda>s. s\<^sup>2 mod 4) (column grid_data ''Segments'') = [0, 0, 0, 0] \<and>
   column grid_data ''Segments'' = [20, 100, 200, 400] \<and>
   column grid_data ''Intersections'' = [100, 2500, 10000, 40000]"
  by (simp add: grid_data_def column_def)

section \<open>The charts\<close>

text \<open>
  C2. The run draws the random data, N = 10, 100, 1000, 10000 against
  Time/Op (ns) = 4372, 115627, 1851251, 29025479, as a line on log-log axes, and when
  benchmark_random.png can be written it is written from that figure at 300 DPI with a
  tight bounding box and the first line printed is "Saved benchmark_random.png". This
  holds whether or not the grid chart that follows can be saved.
\<close>

theorem random_chart_written:
  assumes "writable ''benchmark_random.png''"
  shows "files (final (main writable fs)) ''benchmark_random.png'' =
           Some \<lparr>img_figure =
                   \<lparr>fig_theme = Some \<lparr>style = ''whitegrid'', palette = ''muted'',
                                       font_scale = 12 / 10\<rparr>,
                    figsize = Some (10, 6),
                    lines = [\<lparr>xdata = [10, 100, 1000, 10000],
                              ydata = [4372, 115627, 1851251, 29025479],
                              marker = ''o'', markersize = 8\<rparr>],
                    xscale = Log, yscale = Log,
                    title = ''Performance Scaling with Number of Segments (Random Data)'',
                    xlabel = ''Number of Segments (n)'',
                    ylabel = ''Time per Operation (ns, log scale)'',
                    grid = Some \<lparr>visible = True, which = ''both'', ls = ''--''\<rparr>\<rparr>,
                 dpi = 300, bbox_inches = ''tight''\<rparr> \<and>
         take 1 (stdout (final (main writable fs))) = [''Saved benchmark_random.png'']"
  using assms by (simp add: main_run finished_chart_def script_theme_def)

text \<open>
  The run with every path writable in an empty directory.
\<close>

theorem random_chart_written_witness:
  "all_writable ''benchmark_random.png'' \<and>
   files (final (main all_writable no_files)) ''benchmark_random.png'' =
     Some \<lparr>img_figure =
             finished_chart (Some script_theme)
               [10, 100, 1000, 10000] [4372, 115627, 1851251, 29025479]
               ''Performance Scaling with Number of Segments (Random Data)''
               ''Number of Segments (n)'',
           dpi = 300, bbox_inches = ''tight''\<rparr> \<and>
   take 1 (stdout (final (main all_writable no_files))) = [''Saved benchmark_random.png'']"
  using random_chart_written [of all_writable no_files]
  by (simp add: all_writable_def finished_chart_def script_theme_def)

text \<open>
  C3. A run that succeeds has drawn the grid data, Intersections = 100, 2500, 10000,
  40000 on the x-axis against the Time/Op (ns) column on the y-axis, as a line on log-log
  axes, has written benchmark_grid.png from that figure at 300 DPI with a tight bounding
  box, and has printed "Saved benchmark_grid.png" as its last line.
\<close>

theorem grid_chart_written:
  assumes "main writable fs = Ok u w"
  shows "files w ''benchmark_grid.png'' =
           Some \<lparr>img_figure =
                   \<lparr>fig_theme = Some \<lparr>style = ''whitegrid'', palette = ''muted'',
                                       font_scale = 12 / 10\<rparr>,
                    figsize = Some (10, 6),
                    lines = [\<lparr>xdata = [100, 2500, 10000, 40000],
                              ydata = [55818, 1604035, 7506986, 31361110],
                              marker = ''o'', markersize = 8\<rparr>],
                    xscale = Log, yscale = Log,
                    title = ''Performance Scaling with Number of Intersections (Grid Data)'',
                    xlabel = ''Number of Intersections (k)'',
                    ylabel = ''Time per Operation (ns, log scale)'',
                    grid = Some \<lparr>visible = True, which = ''both'', ls = ''--''\<rparr>\<rparr>,
                 dpi = 300, bbox_inches = ''tight''\<rparr> \<and>
         stdout w = [''Saved benchmark_random.png'', ''Saved benchmark_grid.png'']"
  using assms
  by (auto simp add: main_run finished_chart_def script_theme_def split: if_splits)

text \<open>
  The run with every path writable in an empty directory succeeds.
\<close>

theorem grid_chart_written_witness:
  "main all_writable no_files = Ok () (final (main all_writable no_files)) \<and>
   files (final (main all_writable no_files)) ''benchmark_grid.png'' =
     Some \<lparr>img_figure =
             finished_chart (Some script_theme)
               [100, 2500, 10000, 40000] [55818, 1604035, 7506986, 31361110]
               ''Performance Scaling with Number of Intersections (Grid Data)''
               ''Number of Intersections (k)'',
           dpi = 300, bbox_inches = ''tight''\<rparr> \<and>
   stdout (final (main all_writable no_files)) =
     [''Saved benchmark_random.png'', ''Saved benchmark_grid.png'']"
proof -
  have ok: "main all_writable no_files = Ok () (final (main all_writable no_files))"
    by (simp add: main_run all_writable_def)
  show ?thesis
    using ok grid_chart_written [OF ok]
    by (simp add: finished_chart_def script_theme_def)
qed

text \<open>
  C6. The line of the grid chart has the Intersections column as its x data and the
  Time/Op (ns) column as its y data, and the x-axis is labelled as the number of
  intersections. The Segments column is part of the table, and the chart block does the
  same whatever that column holds: it is not plotted.
\<close>

theorem grid_chart_plots_intersections:
  "map (\<lambda>l. (xdata l, ydata l))
     (lines (last (figs (final (chart_grid writable grid_data w))))) =
     [([100, 2500, 10000, 40000], [55818, 1604035, 7506986, 31361110])] \<and>
   xlabel (last (figs (final (chart_grid writable grid_data w)))) =
     ''Number of Intersections (k)'' \<and>
   column grid_data ''Segments'' = [20, 100, 200, 400] \<and>
   chart_grid writable
     (map (\<lambda>kc. if fst kc = ''Segments'' then (''Segments'', segs) else kc) grid_data) w =
     chart_grid writable grid_data w"
proof -
  have cols: "map_of (map (\<lambda>kc. if fst kc = ''Segments'' then (''Segments'', segs) else kc)
                 grid_data) ''Intersections'' = Some [100, 2500, 10000, 40000]"
    "map_of (map (\<lambda>kc. if fst kc = ''Segments'' then (''Segments'', segs) else kc)
                 grid_data) ''Time/Op (ns)'' = Some [55818, 1604035, 7506986, 31361110]"
    by (simp_all add: grid_data_def)
  show ?thesis
    by (simp add: chart_grid_run [OF cols] chart_grid_run [OF grid_columns(1,2)]
        finished_chart_def column_def grid_columns(3))
qed

section \<open>Errors\<close>

text \<open>
  C4, as stated, fails: the script has no check of the values it plots. Building the
  DataFrame from a table with a zero and a negative number and running the first chart
  block on it raises nothing, and the chart file is written.
\<close>

theorem nonpositive_values_rejected_counterexample:
  "\<not> all_columns_positive nonpositive_data \<and>
   \<not> raised (and_then (DataFrame nonpositive_data (start no_files))
                (chart_random all_writable)) \<and>
   files (final (and_then (DataFrame nonpositive_data (start no_files))
                   (chart_random all_writable))) ''benchmark_random.png'' \<noteq> None"
proof -
  have cols: "map_of nonpositive_data ''N'' = Some [0, 100, 1000, 10000]"
    "map_of nonpositive_data ''Time/Op (ns)'' = Some [4372, - 5, 1851251, 29025479]"
    by (simp_all add: nonpositive_data_def)
  have df: "DataFrame nonpositive_data (start no_files) = Ok nonpositive_data (start no_files)"
    by (simp add: DataFrame_def nonpositive_data_def)
  have pos: "\<not> all_columns_positive nonpositive_data"
    by (simp add: nonpositive_data_def)
  show ?thesis
    using pos by (simp add: df chart_random_run [OF cols] all_writable_def)
qed

text \<open>
  C4, amended. A zero or a negative value does not make rendering fail: neither chart
  block checks the values it plots. Take the script with other numbers in its tables,
  such that the plotted series are drawn as given (columns of equal length, x strictly
  increasing, magnitudes below 2^53, at least one sample with both values positive);
  the other samples may be zero or negative. With a writable output path, building the
  DataFrame and running the chart block raises nothing, the chart file is written from a
  figure that holds the two columns unchanged on log-log axes, and the confirmation line
  is printed.
\<close>

theorem render_does_not_check_values:
  assumes "drawn_as_given xs ys" and "writable ''benchmark_random.png''"
    and "drawn_as_given ks ts" and "length ss = length ks"
    and "writable ''benchmark_grid.png''"
  shows "\<not> raised (and_then (DataFrame [(''N'', xs), (''Time/Op (ns)'', ys)] w)
                      (chart_random writable)) \<and>
         map_option (\<lambda>i. (map (\<lambda>l. (xdata l, ydata l)) (lines (img_figure i)),
                           xscale (img_figure i), yscale (img_figure i)))
           (files (final (and_then (DataFrame [(''N'', xs), (''Time/Op (ns)'', ys)] w)
                            (chart_random writable))) ''benchmark_random.png'') =
           Some ([(xs, ys)], Log, Log) \<and>
         last (stdout (final (and_then (DataFrame [(''N'', xs), (''Time/Op (ns)'', ys)] w)
                                 (chart_random writable)))) =
           ''Saved benchmark_random.png'' \<and>
         \<not> raised (and_then
                      (DataFrame [(''Segments'', ss), (''Intersections'', ks),
                                  (''Time/Op (ns)'', ts)] w)
                      (chart_grid writable)) \<and>
         map_option (\<lambda>i. (map (\<lambda>l. (xdata l, ydata l)) (lines (img_figure i)),
                           xscale (img_figure i), yscale (img_figure i)))
           (files (final (and_then
                            (DataFrame [(''Segments'', ss), (''Intersections'', ks),
                                        (''Time/Op (ns)'', ts)] w)
                            (chart_grid writable))) ''benchmark_grid.png'') =
           Some ([(ks, ts)], Log, Log) \<and>
         last (stdout (final (and_then
                                 (DataFrame [(''Segments'', ss), (''Intersections'', ks),
                                             (''Time/Op (ns)'', ts)] w)
                                 (chart_grid writable)))) =
           ''Saved benchmark_grid.png''"
proof -
  have lr: "length ys = length xs" and lg: "length ts = length ks"
    using assms(1,3) by (simp_all add: drawn_as_given_def)
  have dr: "DataFrame [(''N'', xs), (''Time/Op (ns)'', ys)] w =
              Ok [(''N'', xs), (''Time/Op (ns)'', ys)] w"
    using lr by (simp add: DataFrame_def)
  have dg: "DataFrame [(''Segments'', ss), (''Intersections'', ks), (''Time/Op (ns)'', ts)] w =
              Ok [(''Segments'', ss), (''Intersections'', ks), (''Time/Op (ns)'', ts)] w"
    using lg assms(4) by (simp add: DataFrame_def)
  have cr: "map_of [(''N'', xs), (''Time/Op (ns)'', ys)] ''N'' = Some xs"
    "map_of [(''N'', xs), (''Time/Op (ns)'', ys)] ''Time/Op (ns)'' = Some ys"
    by simp_all
  have cg: "map_of [(''Segments'', ss), (''Intersections'', ks), (''Time/Op (ns)'', ts)]
              ''Intersections'' = Some ks"
    "map_of [(''Segments'', ss), (''Intersections'', ks), (''Time/Op (ns)'', ts)]
              ''Time/Op (ns)'' = Some ts"
    by simp_all
  have r: "\<not> raised (chart_random writable [(''N'', xs), (''Time/Op (ns)'', ys)] w) \<and>
         map_option (\<lambda>i. (map (\<lambda>l. (xdata l, ydata l)) (lines (img_figure i)),
                           xscale (img_figure i), yscale (img_figure i)))
           (files (final (chart_random writable [(''N'', xs), (''Time/Op (ns)'', ys)] w))
              ''benchmark_random.png'') = Some ([(xs, ys)], Log, Log) \<and>
         last (stdout (final (chart_random writable [(''N'', xs), (''Time/Op (ns)'', ys)] w))) =
           ''Saved benchmark_random.png''"
    using assms(2) by (simp add: chart_random_run [OF cr] finished_chart_def)
  have g: "\<not> raised (chart_grid writable
                      [(''Segments'', ss), (''Intersections'', ks), (''Time/Op (ns)'', ts)] w) \<and>
         map_option (\<lambda>i. (map (\<lambda>l. (xdata l, ydata l)) (lines (img_figure i)),
                           xscale (img_figure i), yscale (img_figure i)))
           (files (final (chart_grid writable
                      [(''Segments'', ss), (''Intersections'', ks), (''Time/Op (ns)'', ts)] w))
              ''benchmark_grid.png'') = Some ([(ks, ts)], Log, Log) \<and>
         last (stdout (final (chart_grid writable
                      [(''Segments'', ss), (''Intersections'', ks), (''Time/Op (ns)'', ts)] w))) =
           ''Saved benchmark_grid.png''"
    using assms(5) by (simp add: chart_grid_run [OF cg] finished_chart_def)
  from r g show ?thesis
    by (simp only: dr dg and_then.simps) simp
qed

text \<open>
  The script with a zero and a negative number in the random table, and with a negative
  number and a zero in the grid table.
\<close>

theorem render_does_not_check_values_witness:
  "drawn_as_given [0, 100, 1000, 10000] [4372, - 5, 1851251, 29025479] \<and>
   all_writable ''benchmark_random.png'' \<and>
   drawn_as_given [- 100, 2500] [0, 55818] \<and>
   length [20, 100 :: int] = length [- 100, 2500 :: int] \<and>
   all_writable ''benchmark_grid.png'' \<and>
   \<not> all_positive [0, 100, 1000, 10000] \<and>
   \<not> all_positive [4372, - 5, 1851251, 29025479] \<and>
   \<not> all_positive [- 100, 2500] \<and>
   \<not> all_positive [0, 55818] \<and>
   \<not> raised (and_then
       (DataFrame [(''N'', [0, 100, 1000, 10000]),
                   (''Time/Op (ns)'', [4372, - 5, 1851251, 29025479])] (start no_files))
       (chart_random all_writable)) \<and>
   map_option (\<lambda>i. (map (\<lambda>l. (xdata l, ydata l)) (lines (img_figure i)),
                     xscale (img_figure i), yscale (img_figure i)))
     (files (final (and_then
        (DataFrame [(''N'', [0, 100, 1000, 10000]),
                    (''Time/Op (ns)'', [4372, - 5, 1851251, 29025479])] (start no_files))
        (chart_random all_writable))) ''benchmark_random.png'') =
     Some ([([0, 100, 1000, 10000], [4372, - 5, 1851251, 29025479])], Log, Log) \<and>
   \<not> raised (and_then
       (DataFrame [(''Segments'', [20, 100]), (''Intersections'', [- 100, 2500]),
                   (''Time/Op (ns)'', [0, 55818])] (start no_files))
       (chart_grid all_writable)) \<and>
   map_option (\<lambda>i. (map (\<lambda>l. (xdata l, ydata l)) (lines (img_figure i)),
                     xscale (img_figure i), yscale (img_figure i)))
     (files (final (and_then
        (DataFrame [(''Segments'', [20, 100]), (''Intersections'', [- 100, 2500]),
                    (''Time/Op (ns)'', [0, 55818])] (start no_files))
        (chart_grid all_writable))) ''benchmark_grid.png'') =
     Some ([([- 100, 2500], [0, 55818])], Log, Log)"
proof -
  have a: "drawn_as_given [0, 100, 1000, 10000] [4372, - 5, 1851251, 29025479]"
    and c: "drawn_as_given [- 100, 2500] [0, 55818]"
    by (simp_all add: drawn_as_given_def)
  have b: "all_writable ''benchmark_random.png''" and e: "all_writable ''benchmark_grid.png''"
    by (simp_all add: all_writable_def)
  have d: "length [20, 100 :: int] = length [- 100, 2500 :: int]"
    by simp
  have n: "\<not> all_positive [0, 100, 1000, 10000] \<and>
           \<not> all_positive [4372, - 5, 1851251, 29025479] \<and>
           \<not> all_positive [- 100, 2500] \<and> \<not> all_positive [0, 55818]"
    by simp
  from a b c d e n
    render_does_not_check_values [OF a b c d e, of "start no_files"]
  show ?thesis
    by (simp only: simp_thms)
qed

text \<open>
  C9. If the first chart block raises, the run ends with that exception in the state
  the block had reached: benchmark_grid.png is as it was before the run, the line
  "Saved benchmark_grid.png" is not printed, and only the first figure was ever opened.
\<close>

theorem first_chart_failure_ends_run:
  assumes "chart_random writable random_data
             (set_theme ''whitegrid'' ''muted'' (12 / 10) (start fs)) = Raised e w"
  shows "main writable fs = Raised e w \<and>
         files w ''benchmark_grid.png'' = fs ''benchmark_grid.png'' \<and>
         ''Saved benchmark_grid.png'' \<notin> set (stdout w) \<and>
         length (figs w) = 1"
proof -
  have m: "main writable fs = Raised e w"
    using assms
    by (simp add: main_def program_def Let_def DataFrame_random DataFrame_grid)
  from assms have "files w = fs \<and> stdout w = [] \<and> length (figs w) = 1"
    by (auto simp add: chart_random_run [OF random_columns(1,2)] set_theme_def start_def
        split: if_splits)
  with m show ?thesis by simp
qed

text \<open>
  The run with benchmark_random.png not writable.
\<close>

theorem first_chart_failure_ends_run_witness:
  "chart_random random_unwritable random_data
     (set_theme ''whitegrid'' ''muted'' (12 / 10) (start no_files)) =
     Raised (OSError ''benchmark_random.png'') (final (main random_unwritable no_files)) \<and>
   main random_unwritable no_files =
     Raised (OSError ''benchmark_random.png'') (final (main random_unwritable no_files)) \<and>
   files (final (main random_unwritable no_files)) ''benchmark_grid.png'' = None \<and>
   ''Saved benchmark_grid.png'' \<notin> set (stdout (final (main random_unwritable no_files)))"
proof -
  have h: "chart_random random_unwritable random_data
     (set_theme ''whitegrid'' ''muted'' (12 / 10) (start no_files)) =
     Raised (OSError ''benchmark_random.png'') (final (main random_unwritable no_files))"
    by (simp add: chart_random_run [OF random_columns(1,2)] main_run random_unwritable_def
        set_theme_def start_def script_theme_def)
  show ?thesis
    using h first_chart_failure_ends_run [OF h]
    by (simp add: no_files_def)
qed

section \<open>Figures\<close>

text \<open>
  C5, as stated, fails: the script never closes a figure. When the first chart block
  has finished, its figure is still open, and at the end of a run both figures are.
\<close>

theorem figure_released_counterexample:
  "figs (final (chart_random all_writable random_data (start no_files))) \<noteq> [] \<and>
   length (figs (final (main all_writable no_files))) = 2"
  by (simp add: chart_random_run [OF random_columns(1,2)] main_run all_writable_def)

text \<open>
  C5, amended. Each chart block opens one new figure of its own and draws on and saves
  only that figure. The figures that were open before stay open and unchanged, in front
  of the new one, and what the block draws, writes and prints is what it would have done
  starting with no figure open at all: no chart state of an earlier block reaches it.
\<close>

theorem each_chart_draws_on_its_own_figure:
  "figs (final (chart_random writable df w)) =
     figs w @ figs (final (chart_random writable df (w\<lparr>figs := []\<rparr>))) \<and>
   length (figs (final (chart_random writable df (w\<lparr>figs := []\<rparr>)))) = 1 \<and>
   files (final (chart_random writable df w)) =
     files (final (chart_random writable df (w\<lparr>figs := []\<rparr>))) \<and>
   stdout (final (chart_random writable df w)) =
     stdout (final (chart_random writable df (w\<lparr>figs := []\<rparr>))) \<and>
   figs (final (chart_grid writable df w)) =
     figs w @ figs (final (chart_grid writable df (w\<lparr>figs := []\<rparr>))) \<and>
   length (figs (final (chart_grid writable df (w\<lparr>figs := []\<rparr>)))) = 1 \<and>
   files (final (chart_grid writable df w)) =
     files (final (chart_grid writable df (w\<lparr>figs := []\<rparr>))) \<and>
   stdout (final (chart_grid writable df w)) =
     stdout (final (chart_grid writable df (w\<lparr>figs := []\<rparr>)))"
proof -
  have r: "figs (final (chart_random writable df v)) =
             figs v @ figs (final (chart_random writable df (v\<lparr>figs := []\<rparr>))) \<and>
           length (figs (final (chart_random writable df (v\<lparr>figs := []\<rparr>)))) = 1 \<and>
           files (final (chart_random writable df v)) =
             files (final (chart_random writable df (v\<lparr>figs := []\<rparr>))) \<and>
           stdout (final (chart_random writable df v)) =
             stdout (final (chart_random writable df (v\<lparr>figs := []\<rparr>)))" for v
  proof (cases "map_of df ''N'' = None \<or> map_of df ''Time/Op (ns)'' = None")
    case True
    show ?thesis by (simp add: chart_random_missing [OF True])
  next
    case False
    then obtain xs ys where "map_of df ''N'' = Some xs" "map_of df ''Time/Op (ns)'' = Some ys"
      by auto
    then show ?thesis by (simp add: chart_random_run)
  qed
  have g: "figs (final (chart_grid writable df v)) =
             figs v @ figs (final (chart_grid writable df (v\<lparr>figs := []\<rparr>))) \<and>
           length (figs (final (chart_grid writable df (v\<lparr>figs := []\<rparr>)))) = 1 \<and>
           files (final (chart_grid writable df v)) =
             files (final (chart_grid writable df (v\<lparr>figs := []\<rparr>))) \<and>
           stdout (final (chart_grid writable df v)) =
             stdout (final (chart_grid writable df (v\<lparr>figs := []\<rparr>)))" for v
  proof (cases "map_of df ''Intersections'' = None \<or> map_of df ''Time/Op (ns)'' = None")
    case True
    show ?thesis by (simp add: chart_grid_missing [OF True])
  next
    case False
    then obtain xs ys where
      "map_of df ''Intersections'' = Some xs" "map_of df ''Time/Op (ns)'' = Some ys"
      by auto
    then show ?thesis by (simp add: chart_grid_run)
  qed
  from r [of w] g [of w] show ?thesis by blast
qed

section \<open>Runs\<close>

text \<open>
  C7. With both output paths writable, a run succeeds and a second run on the files the
  first one left succeeds too. After the first run the two output paths hold the two
  charts of the run, whatever was at those paths before, and exactly those two paths
  have been added to the directory. The second run leaves the directory as the first one
  left it (the same two files with the same content, nothing more) and prints the same
  lines.
\<close>

theorem rerun_overwrites_same_files:
  assumes "writable ''benchmark_random.png''" and "writable ''benchmark_grid.png''"
  shows "\<not> raised (main writable fs) \<and>
         \<not> raised (main writable (files (final (main writable fs)))) \<and>
         dom (files (final (main writable fs))) =
           dom fs \<union> {''benchmark_random.png'', ''benchmark_grid.png''} \<and>
         files (final (main writable (files (final (main writable fs))))) =
           files (final (main writable fs)) \<and>
         stdout (final (main writable (files (final (main writable fs))))) =
           stdout (final (main writable fs)) \<and>
         files (final (main writable fs)) ''benchmark_random.png'' =
           Some \<lparr>img_figure =
                   \<lparr>fig_theme = Some \<lparr>style = ''whitegrid'', palette = ''muted'',
                                       font_scale = 12 / 10\<rparr>,
                    figsize = Some (10, 6),
                    lines = [\<lparr>xdata = [10, 100, 1000, 10000],
                              ydata = [4372, 115627, 1851251, 29025479],
                              marker = ''o'', markersize = 8\<rparr>],
                    xscale = Log, yscale = Log,
                    title = ''Performance Scaling with Number of Segments (Random Data)'',
                    xlabel = ''Number of Segments (n)'',
                    ylabel = ''Time per Operation (ns, log scale)'',
                    grid = Some \<lparr>visible = True, which = ''both'', ls = ''--''\<rparr>\<rparr>,
                 dpi = 300, bbox_inches = ''tight''\<rparr> \<and>
         files (final (main writable fs)) ''benchmark_grid.png'' =
           Some \<lparr>img_figure =
                   \<lparr>fig_theme = Some \<lparr>style = ''whitegrid'', palette = ''muted'',
                                       font_scale = 12 / 10\<rparr>,
                    figsize = Some (10, 6),
                    lines = [\<lparr>xdata = [100, 2500, 10000, 40000],
                              ydata = [55818, 1604035, 7506986, 31361110],
                              marker = ''o'', markersize = 8\<rparr>],
                    xscale = Log, yscale = Log,
                    title = ''Performance Scaling with Number of Intersections (Grid Data)'',
                    xlabel = ''Number of Intersections (k)'',
                    ylabel = ''Time per Operation (ns, log scale)'',
                    grid = Some \<lparr>visible = True, which = ''both'', ls = ''--''\<rparr>\<rparr>,
                 dpi = 300, bbox_inches = ''tight''\<rparr>"
  using assms by (auto simp add: main_run finished_chart_def script_theme_def)

text \<open>
  Two runs in a directory that already held an older benchmark_grid.png, saved at 100
  DPI from an empty figure: the first run replaces it by the chart of the run.
\<close>

theorem rerun_overwrites_same_files_witness:
  "all_writable ''benchmark_random.png'' \<and> all_writable ''benchmark_grid.png'' \<and>
   \<not> raised (main all_writable stale_files) \<and>
   \<not> raised (main all_writable (files (final (main all_writable stale_files)))) \<and>
   dom (files (final (main all_writable stale_files))) =
     {''benchmark_random.png'', ''benchmark_grid.png''} \<and>
   files (final (main all_writable (files (final (main all_writable stale_files))))) =
     files (final (main all_writable stale_files)) \<and>
   stale_files ''benchmark_grid.png'' =
     Some \<lparr>img_figure = new_figure None None, dpi = 100, bbox_inches = ''standard''\<rparr> \<and>
   files (final (main all_writable stale_files)) ''benchmark_grid.png'' =
     Some \<lparr>img_figure =
             finished_chart (Some script_theme)
               [100, 2500, 10000, 40000] [55818, 1604035, 7506986, 31361110]
               ''Performance Scaling with Number of Intersections (Grid Data)''
               ''Number of Intersections (k)'',
           dpi = 300, bbox_inches = ''tight''\<rparr> \<and>
   files (final (main all_writable stale_files)) ''benchmark_grid.png'' \<noteq>
     stale_files ''benchmark_grid.png''"
proof -
  have a: "all_writable ''benchmark_random.png''" and b: "all_writable ''benchmark_grid.png''"
    by (simp_all add: all_writable_def)
  have d: "dom stale_files = {''benchmark_grid.png''}"
    by (simp add: stale_files_def)
  have st: "stale_files ''benchmark_grid.png'' =
     Some \<lparr>img_figure = new_figure None None, dpi = 100, bbox_inches = ''standard''\<rparr>"
    by (simp add: stale_files_def)
  show ?thesis
    using a b rerun_overwrites_same_files [OF a b, of stale_files]
    by (auto simp add: d st finished_chart_def script_theme_def)
qed

text \<open>
  C8. The outcome of a successful run does not depend on its surroundings. Any two
  successful runs, in whatever directories and with whatever paths writable, draw the same
  figures, print the same two lines in the same order, write the same image to
  benchmark_random.png and to benchmark_grid.png, and leave every other path as it was.
\<close>

theorem successful_runs_agree:
  assumes "main writable1 fs1 = Ok u1 w1" and "main writable2 fs2 = Ok u2 w2"
  shows "figs w1 = figs w2 \<and>
         stdout w1 = [''Saved benchmark_random.png'', ''Saved benchmark_grid.png''] \<and>
         stdout w2 = [''Saved benchmark_random.png'', ''Saved benchmark_grid.png''] \<and>
         files w1 ''benchmark_random.png'' = files w2 ''benchmark_random.png'' \<and>
         files w1 ''benchmark_grid.png'' = files w2 ''benchmark_grid.png'' \<and>
         files w1 ''benchmark_random.png'' \<noteq> None \<and>
         files w1 ''benchmark_grid.png'' \<noteq> None \<and>
         (\<forall>p. p \<noteq> ''benchmark_random.png'' \<and> p \<noteq> ''benchmark_grid.png'' \<longrightarrow>
              files w1 p = fs1 p \<and> files w2 p = fs2 p)"
  using assms by (auto simp add: main_run split: if_splits)

text \<open>
  A run in an empty directory and a run in one holding an older chart.
\<close>

theorem successful_runs_agree_witness:
  "main all_writable no_files = Ok () (final (main all_writable no_files)) \<and>
   main all_writable stale_files = Ok () (final (main all_writable stale_files)) \<and>
   figs (final (main all_writable no_files)) = figs (final (main all_writable stale_files)) \<and>
   stdout (final (main all_writable no_files)) =
     [''Saved benchmark_random.png'', ''Saved benchmark_grid.png''] \<and>
   stdout (final (main all_writable stale_files)) =
     [''Saved benchmark_random.png'', ''Saved benchmark_grid.png''] \<and>
   files (final (main all_writable no_files)) ''benchmark_grid.png'' =
     files (final (main all_writable stale_files)) ''benchmark_grid.png''"
proof -
  have a: "main all_writable no_files = Ok () (final (main all_writable no_files))"
    by (simp add: main_run all_writable_def)
  have b: "main all_writable stale_files = Ok () (final (main all_writable stale_files))"
    by (simp add: main_run all_writable_def)
  show ?thesis
    using a b successful_runs_agree [OF a b] by simp
qed

end
